theory Spec2Isabelle
  imports Complex_Main "HOL-Library.Multiset"
begin

section \<open>Data model of the logistics planner\<close>

text \<open>
  A timestamp is the number of microseconds since 0001-01-01T00:00:00, the smallest
  value of Python's \<^verbatim>\<open>datetime\<close>. The program stores timestamps as the text that
  \<^verbatim>\<open>isoformat()\<close> prints and reads them back with \<^verbatim>\<open>fromisoformat()\<close>; the two
  are inverse to each other, and on such texts (four-digit year, fixed-width fields)
  the order of the texts is the order of the instants, so the table keeps the
  instants themselves.
\<close>

type_synonym timestamp = int

text \<open>
  A string is the UTF-8 text of a Python \<^verbatim>\<open>str\<close>, which is what SQLite stores and
  compares.
\<close>

definition US_PER_DAY :: int where
  "US_PER_DAY = 86400000000"

text \<open>\<^verbatim>\<open>datetime.max\<close> is 9999-12-31T23:59:59.999999, day 3652059 of the calendar.\<close>

definition DATETIME_MAX :: timestamp where
  "DATETIME_MAX = 3652059 * US_PER_DAY - 1"

definition SHIPMENT_STATUSES :: "string list" where
  "SHIPMENT_STATUSES =
     [''pending'', ''picked_up'', ''in_transit'', ''out_for_delivery'', ''delivered'', ''exception'']"

definition PRIORITIES :: "string list" where
  "PRIORITIES = [''standard'', ''express'', ''overnight'']"

definition CARRIERS :: "string list" where
  "CARRIERS = [''fedex'', ''ups'', ''usps'', ''dhl'', ''blackroad-express'']"

text \<open>
  A Python float as an argument and as a stored value: a finite number, an infinity or
  NaN. The weight is stored and never computed with.
\<close>

datatype pyfloat = Finite real | PosInf | NegInf | NaN

record Shipment =
  shipment_id :: string
  origin :: string
  destination :: string
  weight_kg :: pyfloat
  priority :: string
  status :: string
  eta :: "timestamp option"
  carrier :: "string option"
  tracking_id :: "string option"
  created_at :: timestamp

text \<open>
  The table \<^verbatim>\<open>shipments\<close>: its rows in storage order. The column \<^verbatim>\<open>id\<close> is the
  primary key, so the rows of a table the program has written have distinct ids.
\<close>

type_synonym table = "Shipment list"

definition ids :: "table \<Rightarrow> string set" where
  "ids tbl = shipment_id ` set tbl"

definition primary_key :: "table \<Rightarrow> bool" where
  "primary_key tbl = distinct (map shipment_id tbl)"

datatype error = ValueError | IntegrityError | OverflowError

text \<open>Python's truth value of an optional string: \<^verbatim>\<open>None\<close> and \<^verbatim>\<open>""\<close> are false.\<close>

fun truthy :: "string option \<Rightarrow> bool" where
  "truthy None = False"
| "truthy (Some s) = (s \<noteq> [])"

section \<open>Repository operations\<close>

text \<open>
  Every mutating operation takes the table and returns its outcome together with the
  table afterwards. The readings of the environment are arguments: \<open>uuid\<close> is the text
  of \<^verbatim>\<open>str(uuid.uuid4())\<close> and \<open>now\<close> is the value of \<^verbatim>\<open>datetime.utcnow()\<close>.
\<close>

text \<open>
  \<^verbatim>\<open>INSERT INTO shipments\<close>: SQLite binds a NaN as \<^verbatim>\<open>NULL\<close>, which the constraint
  \<^verbatim>\<open>weight_kg REAL NOT NULL\<close> refuses, and a row whose id is already stored violates the
  primary key. Both raise \<^verbatim>\<open>sqlite3.IntegrityError\<close>, and nothing is written.
\<close>

definition insert_row :: "table \<Rightarrow> Shipment \<Rightarrow> error + table" where
  "insert_row tbl row =
     (if weight_kg row = NaN then Inl IntegrityError
      else if shipment_id row \<in> ids tbl then Inl IntegrityError
      else Inr (tbl @ [row]))"

definition create_shipment ::
  "string \<Rightarrow> timestamp \<Rightarrow> table \<Rightarrow> string \<Rightarrow> string \<Rightarrow> pyfloat \<Rightarrow> string \<Rightarrow> (error + string) \<times> table"
where
  "create_shipment uuid now tbl org dst w prio =
     (if prio \<notin> set PRIORITIES then (Inl ValueError, tbl)
      else
        let sid = take 8 uuid;
            shipment = \<lparr>shipment_id = sid, origin = org, destination = dst, weight_kg = w,
                        priority = prio, status = ''pending'', eta = None, carrier = None,
                        tracking_id = None, created_at = now\<rparr>
        in case insert_row tbl shipment of
             Inl e \<Rightarrow> (Inl e, tbl)
           | Inr tbl' \<Rightarrow> (Inr sid, tbl'))"

text \<open>\<^verbatim>\<open>UPDATE shipments SET ... WHERE id = ?\<close>: every row with that id is rewritten.\<close>

definition update_where_id :: "table \<Rightarrow> string \<Rightarrow> (Shipment \<Rightarrow> Shipment) \<Rightarrow> table" where
  "update_where_id tbl sid f = map (\<lambda>r. if shipment_id r = sid then f r else r) tbl"

text \<open>
  \<^verbatim>\<open>datetime.utcnow() + timedelta(days=eta_days)\<close>: the constructor of \<^verbatim>\<open>timedelta\<close>
  refuses more than 999999999 days either way, and the sum must lie between
  \<^verbatim>\<open>datetime.min\<close> and \<^verbatim>\<open>datetime.max\<close>; both raise \<^verbatim>\<open>OverflowError\<close>.
\<close>

definition add_days :: "timestamp \<Rightarrow> int \<Rightarrow> error + timestamp" where
  "add_days now eta_days =
     (if eta_days < - 999999999 \<or> 999999999 < eta_days then Inl OverflowError
      else let t = now + eta_days * US_PER_DAY
           in if t < 0 \<or> DATETIME_MAX < t then Inl OverflowError else Inr t)"

definition assign_carrier ::
  "timestamp \<Rightarrow> table \<Rightarrow> string \<Rightarrow> string \<Rightarrow> string \<Rightarrow> int \<Rightarrow> (error + unit) \<times> table"
where
  "assign_carrier now tbl sid carr tid eta_days =
     (if carr \<notin> set CARRIERS then (Inl ValueError, tbl)
      else case add_days now eta_days of
             Inl e \<Rightarrow> (Inl e, tbl)
           | Inr t \<Rightarrow>
               (Inr (),
                update_where_id tbl sid
                  (\<lambda>r. r\<lparr>carrier := Some carr, tracking_id := Some tid, eta := Some t,
                         status := ''picked_up''\<rparr>)))"

definition update_status :: "table \<Rightarrow> string \<Rightarrow> string \<Rightarrow> (error + unit) \<times> table" where
  "update_status tbl sid st =
     (if st \<notin> set SHIPMENT_STATUSES then (Inl ValueError, tbl)
      else (Inr (), update_where_id tbl sid (\<lambda>r. r\<lparr>status := st\<rparr>)))"

text \<open>
  \<^verbatim>\<open>get_shipments\<close>: a filter is added to the query only when its argument is true in
  Python's sense. \<^verbatim>\<open>ORDER BY created_at DESC\<close> leaves the order of rows with equal
  keys open; the model keeps them in storage order.
\<close>

definition get_shipments :: "table \<Rightarrow> string option \<Rightarrow> string option \<Rightarrow> Shipment list" where
  "get_shipments tbl st prio =
     (let rows1 = (if truthy st then filter (\<lambda>r. status r = the st) tbl else tbl);
          rows2 = (if truthy prio then filter (\<lambda>r. priority r = the prio) rows1 else rows1)
      in sort_key (\<lambda>r. - created_at r) rows2)"

text \<open>\<^verbatim>\<open>fetchone()\<close> on \<^verbatim>\<open>SELECT * FROM shipments WHERE id = ?\<close>: the first such row, if any.\<close>

definition fetchone :: "table \<Rightarrow> string \<Rightarrow> Shipment option" where
  "fetchone tbl sid = find (\<lambda>r. shipment_id r = sid) tbl"

section \<open>Numbers\<close>

text \<open>
  The nearest integer, a tie going to the even one.
\<close>

definition round_half_even :: "real \<Rightarrow> int" where
  "round_half_even y =
     (let f = \<lfloor>y\<rfloor>; d = y - of_int f
      in if d < 1 / 2 then f else if 1 / 2 < d then f + 1 else if even f then f else f + 1)"

text \<open>
  The route estimate goes through sine, cosine and arc sine; its floats are taken as
  real numbers, and \<^verbatim>\<open>round(x, 1)\<close> as the nearest multiple of one tenth.
\<close>

definition round1 :: "real \<Rightarrow> real" where
  "round1 x = of_int (round_half_even (x * 10)) / 10"

text \<open>
  The statistics divide and multiply integers and floats, which is modelled exactly.
  \<open>fl x\<close> is the double nearest to \<open>x\<close>, a tie going to the even mantissa: a double
  is an integer of at most 53 bits times a power of two, and the exponent of that power
  is at least -1074. A float is kept as the real number it stands for. The numbers
  the statistics round are at most a percentage or a number of days between two
  instants of the calendar, far below the largest double.
\<close>

definition fl :: "real \<Rightarrow> real" where
  "fl x =
     (if x = 0 then 0
      else let e = max \<lfloor>log 2 \<bar>x\<bar>\<rfloor> (- 1022);
               q = 2 powi (e - 52)
           in sgn x * (real_of_int (round_half_even (\<bar>x\<bar> / q)) * q))"

text \<open>
  \<^verbatim>\<open>a / b\<close> on two integers is the correctly rounded quotient; the program divides by
  the length of a list it has found not empty, or by a count of at least one.
\<close>

definition truediv :: "int \<Rightarrow> int \<Rightarrow> real" where
  "truediv a b = fl (real_of_int a / real_of_int b)"

definition float_mul :: "real \<Rightarrow> real \<Rightarrow> real" where
  "float_mul a b = fl (a * b)"

text \<open>
  \<^verbatim>\<open>round(x, 1)\<close> on a float: the exact value of \<open>x\<close> is rounded to a multiple of one
  tenth, a tie going to the even one, and the result is the double nearest to that
  decimal.
\<close>

definition py_round1 :: "real \<Rightarrow> real" where
  "py_round1 x = fl (real_of_int (round_half_even (x * 10)) / 10)"

section \<open>Route estimation\<close>

definition CITY_COORDS :: "(string \<times> (real \<times> real)) list" where
  "CITY_COORDS =
     [(''NYC'', (40.7128, - 74.0060)),
      (''LAX'', (34.0522, - 118.2437)),
      (''CHI'', (41.8781, - 87.6298)),
      (''HOU'', (29.7604, - 95.3698)),
      (''PHX'', (33.4484, - 112.0742)),
      (''PHI'', (39.9526, - 75.1652)),
      (''SAN'', (32.7157, - 117.1611)),
      (''DAL'', (32.7767, - 96.7970)),
      (''SJC'', (37.3382, - 121.8863)),
      (''AUS'', (30.2672, - 97.7431)),
      (''DEN'', (39.7392, - 104.9903)),
      (''ATL'', (33.7490, - 84.3880)),
      (''BOS'', (42.3601, - 71.0589)),
      (''MIA'', (25.7617, - 80.1918)),
      (''SEA'', (47.6062, - 122.3321)),
      (''POR'', (45.5152, - 122.6784)),
      (''MIN'', (44.9778, - 93.2650)),
      (''DET'', (42.3314, - 83.0458)),
      (''CLE'', (41.4993, - 81.6944)),
      (''STL'', (38.6270, - 90.1994))]"

definition radians :: "real \<Rightarrow> real" where
  "radians x = x * pi / 180"

text \<open>
  \<^verbatim>\<open>math.sqrt\<close> raises \<^verbatim>\<open>ValueError\<close> below 0 and \<^verbatim>\<open>math.asin\<close> raises it outside
  \<open>[-1, 1]\<close>; the square root is never negative, so only the upper bound is tested.
\<close>

definition haversine_distance :: "real \<times> real \<Rightarrow> real \<times> real \<Rightarrow> error + real" where
  "haversine_distance coord1 coord2 =
     (let (lat1, lon1) = coord1;
          (lat2, lon2) = coord2;
          R = 6371;
          lat1_rad = radians lat1;
          lat2_rad = radians lat2;
          delta_lat = radians (lat2 - lat1);
          delta_lon = radians (lon2 - lon1);
          a = (sin (delta_lat / 2))\<^sup>2 + cos lat1_rad * cos lat2_rad * (sin (delta_lon / 2))\<^sup>2
      in if a < 0 then Inl ValueError
         else if 1 < sqrt a then Inl ValueError
         else Inr (R * (2 * arcsin (sqrt a))))"

text \<open>The values that occur in the dictionary \<^verbatim>\<open>get_route\<close> returns.\<close>

datatype pyval = Str string | Num real | StrList "string list"

text \<open>\<^verbatim>\<open>repr\<close> of a list of strings that hold no quote, backslash or control character.\<close>

definition py_repr_str :: "string \<Rightarrow> string" where
  "py_repr_str s = [CHR 0x27] @ s @ [CHR 0x27]"

fun py_join :: "string \<Rightarrow> string list \<Rightarrow> string" where
  "py_join sep [] = []"
| "py_join sep [x] = x"
| "py_join sep (x # y # ys) = x @ sep @ py_join sep (y # ys)"

definition py_repr_list :: "string list \<Rightarrow> string" where
  "py_repr_list xs = ''['' @ py_join '', '' (map py_repr_str xs) @ '']''"

definition get_route :: "string \<Rightarrow> string \<Rightarrow> error + (string \<times> pyval) list" where
  "get_route org dst =
     (if org \<notin> fst ` set CITY_COORDS \<or> dst \<notin> fst ` set CITY_COORDS then
        Inr [(''error'',
              Str (''Unknown city. Available cities: '' @ py_repr_list (map fst CITY_COORDS)))]
      else
        case haversine_distance (the (map_of CITY_COORDS org)) (the (map_of CITY_COORDS dst)) of
          Inl e \<Rightarrow> Inl e
        | Inr distance_km \<Rightarrow>
            let duration_h = distance_km / 80
            in Inr [(''origin'', Str org),
                    (''destination'', Str dst),
                    (''distance_km'', Num (round1 distance_km)),
                    (''duration_h'', Num (round1 duration_h)),
                    (''stops'', StrList [org, dst])])"

section \<open>Batch grouping\<close>

text \<open>
  A Python dictionary with string keys, in insertion order. \<open>dict_upd d k dflt f\<close> is
  \<^verbatim>\<open>if k not in d: d[k] = dflt\<close> followed by \<^verbatim>\<open>d[k] = f(d[k])\<close>.
\<close>

type_synonym 'v dict = "(string \<times> 'v) list"

fun dict_upd :: "'v dict \<Rightarrow> string \<Rightarrow> 'v \<Rightarrow> ('v \<Rightarrow> 'v) \<Rightarrow> 'v dict" where
  "dict_upd [] k dflt f = [(k, f dflt)]"
| "dict_upd ((k', v) # d) k dflt f =
     (if k' = k then (k', f v) # d else (k', v) # dict_upd d k dflt f)"

fun resolve :: "table \<Rightarrow> string list \<Rightarrow> Shipment list \<Rightarrow> Shipment list" where
  "resolve tbl [] shipments = shipments"
| "resolve tbl (sid # sids) shipments =
     (case fetchone tbl sid of
        None \<Rightarrow> resolve tbl sids shipments
      | Some row \<Rightarrow> resolve tbl sids (shipments @ [row]))"

fun group_by_carrier :: "Shipment list \<Rightarrow> Shipment list dict \<Rightarrow> Shipment list dict" where
  "group_by_carrier [] groups = groups"
| "group_by_carrier (s # ss) groups =
     (if truthy (carrier s)
      then group_by_carrier ss (dict_upd groups (the (carrier s)) [] (\<lambda>ships. ships @ [s]))
      else group_by_carrier ss groups)"

fun group_by_priority :: "Shipment list \<Rightarrow> Shipment list dict \<Rightarrow> Shipment list dict" where
  "group_by_priority [] groups = groups"
| "group_by_priority (s # ss) groups =
     group_by_priority ss (dict_upd groups (priority s) [] (\<lambda>ships. ships @ [s]))"

record BatchSummary =
  total_shipments :: nat
  by_carrier :: "nat dict"
  by_priority :: "nat dict"

definition optimize_batch :: "table \<Rightarrow> string list \<Rightarrow> BatchSummary" where
  "optimize_batch tbl shipment_ids =
     (let shipments = resolve tbl shipment_ids [];
          carrier_groups = group_by_carrier shipments [];
          priority_groups = group_by_priority shipments []
      in \<lparr>total_shipments = length shipments,
          by_carrier = map (\<lambda>(c, ships). (c, length ships)) carrier_groups,
          by_priority = map (\<lambda>(p, ships). (p, length ships)) priority_groups\<rparr>)"

section \<open>Delivery statistics\<close>

text \<open>
  \<^verbatim>\<open>delivery_stats\<close> reads the clock once for every delivered shipment that has an
  eta: \<open>clk k\<close> is the reading of the \<open>k\<close>-th call of \<^verbatim>\<open>datetime.utcnow()\<close>.
\<close>

fun on_time_loop :: "(nat \<Rightarrow> timestamp) \<Rightarrow> Shipment list \<Rightarrow> nat \<Rightarrow> nat \<Rightarrow> nat" where
  "on_time_loop clk [] k on_time_count = on_time_count"
| "on_time_loop clk (s # ss) k on_time_count =
     (case eta s of
        None \<Rightarrow> on_time_loop clk ss k on_time_count
      | Some eta_time \<Rightarrow>
          on_time_loop clk ss (Suc k)
            (if clk k \<le> eta_time then on_time_count + 1 else on_time_count))"

text \<open>
  \<^verbatim>\<open>(eta_time - created).days\<close>: a \<^verbatim>\<open>timedelta\<close> is kept with its seconds and
  microseconds not negative, so its days are the floor of the difference.
\<close>

fun transit_loop :: "Shipment list \<Rightarrow> int list \<Rightarrow> int list" where
  "transit_loop [] transit_times = transit_times"
| "transit_loop (s # ss) transit_times =
     (case eta s of
        None \<Rightarrow> transit_loop ss transit_times
      | Some eta_time \<Rightarrow>
          transit_loop ss (transit_times @ [(eta_time - created_at s) div US_PER_DAY]))"

fun carrier_loop :: "Shipment list \<Rightarrow> (nat \<times> nat) dict \<Rightarrow> (nat \<times> nat) dict" where
  "carrier_loop [] counts = counts"
| "carrier_loop (s # ss) counts =
     (if truthy (carrier s)
      then carrier_loop ss
             (dict_upd counts (the (carrier s)) (0, 0)
                (\<lambda>(n_delivered, n_total).
                   (if status s = ''delivered'' then n_delivered + 1 else n_delivered,
                    n_total + 1)))
      else carrier_loop ss counts)"

record StatsSummary =
  stats_total_shipments :: nat
  delivered :: nat
  in_exception :: nat
  on_time_rate_pct :: real
  avg_transit_days :: real
  stats_by_carrier :: "real dict"

definition delivery_stats :: "(nat \<Rightarrow> timestamp) \<Rightarrow> table \<Rightarrow> StatsSummary" where
  "delivery_stats clk shipments =
     (let delivered_rows = filter (\<lambda>s. status s = ''delivered'') shipments;
          exception_rows = filter (\<lambda>s. status s = ''exception'') shipments;
          on_time_count =
            (if delivered_rows \<noteq> [] then on_time_loop clk delivered_rows 0 0 else 0);
          on_time_rate =
            (if delivered_rows \<noteq> []
             then float_mul (truediv (int on_time_count) (int (length delivered_rows))) 100
             else 0);
          transit_times =
            (if delivered_rows \<noteq> [] then transit_loop delivered_rows [] else []);
          avg_transit =
            (if transit_times \<noteq> []
             then truediv (sum_list transit_times) (int (length transit_times)) else 0);
          counts = carrier_loop shipments []
      in \<lparr>stats_total_shipments = length shipments,
          delivered = length delivered_rows,
          in_exception = length exception_rows,
          on_time_rate_pct = py_round1 on_time_rate,
          avg_transit_days = py_round1 avg_transit,
          stats_by_carrier =
            map (\<lambda>(c, (n_delivered, n_total)).
                   (c, py_round1 (float_mul (truediv (int n_delivered) (int n_total)) 100)))
              counts\<rparr>)"

section \<open>Notions used to state the properties\<close>



text \<open>
  The carrier column is written by \<open>assign_carrier\<close> alone, after the carrier has been
  checked, so in a table the program has written every carrier is one of \<open>CARRIERS\<close>.
\<close>

definition carriers_valid :: "table \<Rightarrow> bool" where
  "carriers_valid tbl =
     list_all (\<lambda>r. case carrier r of None \<Rightarrow> True | Some c \<Rightarrow> c \<in> set CARRIERS) tbl"




text \<open>
  The great-circle distance as the specification words it: both coordinates are turned
  into radians first, and the differences are taken afterwards.
\<close>

definition great_circle_km :: "real \<times> real \<Rightarrow> real \<times> real \<Rightarrow> real" where
  "great_circle_km p q =
     (let lat1 = radians (fst p); lon1 = radians (snd p);
          lat2 = radians (fst q); lon2 = radians (snd q);
          a = (sin ((lat2 - lat1) / 2))\<^sup>2 + cos lat1 * cos lat2 * (sin ((lon2 - lon1) / 2))\<^sup>2;
          c = 2 * arcsin (sqrt a)
      in 6371 * c)"

definition known_codes :: "string list" where
  "known_codes =
     [''NYC'', ''LAX'', ''CHI'', ''HOU'', ''PHX'', ''PHI'', ''SAN'', ''DAL'', ''SJC'', ''AUS'',
      ''DEN'', ''ATL'', ''BOS'', ''MIA'', ''SEA'', ''POR'', ''MIN'', ''DET'', ''CLE'', ''STL'']"

definition route_field :: "error + (string \<times> pyval) list \<Rightarrow> string \<Rightarrow> pyval option" where
  "route_field r k = (case r of Inl e \<Rightarrow> None | Inr d \<Rightarrow> map_of d k)"



definition delivered_with_eta :: "table \<Rightarrow> Shipment list" where
  "delivered_with_eta tbl =
     filter (\<lambda>s. eta s \<noteq> None) (filter (\<lambda>s. status s = ''delivered'') tbl)"

text \<open>Each delivered shipment that has an eta, with the clock reading taken for it.\<close>

definition evaluations :: "(nat \<Rightarrow> timestamp) \<Rightarrow> table \<Rightarrow> (Shipment \<times> timestamp) list" where
  "evaluations clk tbl =
     zip (delivered_with_eta tbl) (map clk [0..<length (delivered_with_eta tbl)])"

definition on_time :: "Shipment \<times> timestamp \<Rightarrow> bool" where
  "on_time p = (case p of (s, now) \<Rightarrow> now \<le> the (eta s))"

text \<open>
  The on-time rate with the two denominators: all delivered shipments, and the
  delivered shipments that have an eta. The quotient, its product with 100 and the
  rounding to one decimal are those of Python's floats.
\<close>

definition rate_over_delivered :: "(nat \<Rightarrow> timestamp) \<Rightarrow> table \<Rightarrow> real" where
  "rate_over_delivered clk tbl =
     (let n = length (filter (\<lambda>s. status s = ''delivered'') tbl)
      in if n = 0 then 0
         else py_round1
                (float_mul (truediv (int (length (filter on_time (evaluations clk tbl)))) (int n))
                   100))"

definition rate_over_delivered_with_eta :: "(nat \<Rightarrow> timestamp) \<Rightarrow> table \<Rightarrow> real" where
  "rate_over_delivered_with_eta clk tbl =
     (if filter (\<lambda>s. status s = ''delivered'') tbl = [] then 0
      else py_round1
             (float_mul (truediv (int (length (filter on_time (evaluations clk tbl))))
                           (int (length (delivered_with_eta tbl))))
                100))"

text \<open>Whole days of a duration in microseconds: rounded down, and rounded towards zero.\<close>

definition floor_days :: "int \<Rightarrow> int" where
  "floor_days us = \<lfloor>real_of_int us / real_of_int US_PER_DAY\<rfloor>"

definition truncate_days :: "int \<Rightarrow> int" where
  "truncate_days us = sgn us * (\<bar>us\<bar> div US_PER_DAY)"

definition average_days :: "(int \<Rightarrow> int) \<Rightarrow> table \<Rightarrow> real" where
  "average_days whole tbl =
     (let rows = delivered_with_eta tbl
      in if rows = [] then 0
         else py_round1 (truediv (\<Sum>s\<leftarrow>rows. whole (the (eta s) - created_at s))
                                  (int (length rows))))"

subsection \<open>Example tables\<close>

definition shipment_at :: "string \<Rightarrow> string \<Rightarrow> timestamp option \<Rightarrow> timestamp \<Rightarrow> Shipment" where
  "shipment_at sid st e c =
     \<lparr>shipment_id = sid, origin = ''NYC'', destination = ''LAX'', weight_kg = Finite 5,
      priority = ''standard'', status = st, eta = e, carrier = None, tracking_id = None,
      created_at = c\<rparr>"


text \<open>Two delivered shipments, one with an eta and one without.\<close>

definition stats_table :: table where
  "stats_table =
     [shipment_at ''aaaaaaaa'' ''delivered'' (Some 63900000000000000) 63800000000000000,
      shipment_at ''bbbbbbbb'' ''delivered'' None 63800000000000000]"

text \<open>A delivered shipment whose eta lies 23 hours before its creation.\<close>

definition early_table :: table where
  "early_table =
     [shipment_at ''cccccccc'' ''delivered'' (Some 63800000000000000) 63800082800000000]"

text \<open>Three shipments, two of them assigned to fedex and one without a carrier.\<close>

definition batch_table :: table where
  "batch_table =
     [(shipment_at ''11111111'' ''picked_up'' (Some 63900259200000000) 63900000000000000)
        \<lparr>carrier := Some ''fedex'', tracking_id := Some ''FX1''\<rparr>,
      (shipment_at ''22222222'' ''picked_up'' (Some 63900259200000000) 63900000000000001)
        \<lparr>carrier := Some ''fedex'', tracking_id := Some ''FX2'', priority := ''express''\<rparr>,
      shipment_at ''33333333'' ''pending'' None 63900000000000002]"

section \<open>Properties of the repository\<close>






text \<open>
  The primary key and the validity of the carriers are kept by every operation, so
  they hold of every table the program has built from the empty one.
\<close>

lemma create_shipment_keeps_invariants:
  assumes "primary_key tbl" and "carriers_valid tbl"
  shows "primary_key (snd (create_shipment uuid now tbl org dst w prio)) \<and>
         carriers_valid (snd (create_shipment uuid now tbl org dst w prio))"
  using assms
  by (auto simp: create_shipment_def insert_row_def primary_key_def carriers_valid_def
      ids_def Let_def)

lemma update_where_id_keeps_ids: "map shipment_id (update_where_id tbl sid f) = map shipment_id tbl"
  if "\<And>r. shipment_id (f r) = shipment_id r"
  using that by (induction tbl) (auto simp: update_where_id_def)

lemma assign_carrier_keeps_invariants:
  assumes "primary_key tbl" and "carriers_valid tbl"
  shows "primary_key (snd (assign_carrier now tbl sid carr tid d)) \<and>
         carriers_valid (snd (assign_carrier now tbl sid carr tid d))"
proof (cases "carr \<in> set CARRIERS")
  case False
  with assms show ?thesis by (simp add: assign_carrier_def)
next
  case True
  show ?thesis
  proof (cases "add_days now d")
    case (Inl e)
    with True assms show ?thesis by (simp add: assign_carrier_def)
  next
    case (Inr t)
    have "carriers_valid (update_where_id tbl sid
            (\<lambda>r. r\<lparr>carrier := Some carr, tracking_id := Some tid, eta := Some t,
                   status := ''picked_up''\<rparr>))"
      using assms(2) True
      by (induction tbl) (auto simp: carriers_valid_def update_where_id_def)
    with Inr True assms(1) show ?thesis
      by (simp add: assign_carrier_def primary_key_def update_where_id_keeps_ids)
  qed
qed

lemma update_status_keeps_invariants:
  assumes "primary_key tbl" and "carriers_valid tbl"
  shows "primary_key (snd (update_status tbl sid st)) \<and>
         carriers_valid (snd (update_status tbl sid st))"
proof -
  have "carriers_valid (update_where_id tbl sid (\<lambda>r. r\<lparr>status := st\<rparr>))"
    using assms(2) by (induction tbl) (auto simp: carriers_valid_def update_where_id_def)
  with assms show ?thesis
    by (simp add: update_status_def primary_key_def update_where_id_keeps_ids)
qed















text \<open>
  Claim C10. The empty string as the status filter or as the priority filter is
  treated as an absent filter, although it is neither a status nor a priority; with
  both filters empty every record is returned.
\<close>

theorem empty_string_filter_is_absent:
  "get_shipments tbl (Some []) prio = get_shipments tbl None prio \<and>
   get_shipments tbl st (Some []) = get_shipments tbl st None \<and>
   mset (get_shipments tbl (Some []) (Some [])) = mset tbl \<and>
   [] \<notin> set SHIPMENT_STATUSES \<and> [] \<notin> set PRIORITIES"
  by (simp add: get_shipments_def SHIPMENT_STATUSES_def PRIORITIES_def)

section \<open>Properties of the batch summary\<close>
























lemma optimize_batch_example:
  "optimize_batch batch_table [''11111111'', ''99999999'', ''22222222'', ''33333333''] =
     \<lparr>total_shipments = 3, by_carrier = [(''fedex'', 2)],
      by_priority = [(''standard'', 2), (''express'', 1)]\<rparr>"
  by (simp add: optimize_batch_def fetchone_def batch_table_def shipment_at_def)



section \<open>Properties of the delivery statistics\<close>

text \<open>
  Evaluating \<open>fl\<close>: once the binary exponent of the argument is known, the double is
  the rounded mantissa times the unit in the last place.
\<close>

lemma fl_eval:
  fixes e :: int
  assumes "2 powi e \<le> \<bar>x\<bar>" and "\<bar>x\<bar> < 2 powi (e + 1)" and "- 1022 \<le> e"
  shows "fl x = sgn x * (real_of_int (round_half_even (\<bar>x\<bar> / 2 powi (e - 52))) * 2 powi (e - 52))"
proof -
  have "(0::real) < 2 powi e" by simp
  with assms(1) have pos: "0 < \<bar>x\<bar>" by linarith
  have p: "2 powr (real_of_int k) = (2::real) powi k" for k
    by (rule powr_real_of_int') simp_all
  have "real_of_int e + 1 = real_of_int (e + 1)" by simp
  then have "2 powr (real_of_int e + 1) = (2::real) powi (e + 1)"
    by (simp only: p)
  with assms(1,2) have "2 powr (real_of_int e) \<le> \<bar>x\<bar>" and "\<bar>x\<bar> < 2 powr (real_of_int e + 1)"
    by (simp_all only: p)
  with pos have "\<lfloor>log 2 \<bar>x\<bar>\<rfloor> = e"
    by (simp add: floor_log_eq_powr_iff)
  with pos assms(3) show ?thesis
    by (simp add: fl_def Let_def max_def)
qed

lemma fl_0: "fl 0 = 0"
  by (simp add: fl_def)

lemma fl_half: "fl (1 / 2) = 1 / 2"
  by (simp add: fl_eval[of "- 1"] round_half_even_def Let_def)

lemma fl_1: "fl 1 = 1"
  by (simp add: fl_eval[of 0] round_half_even_def Let_def)

lemma fl_minus_1: "fl (- 1) = - 1"
  by (simp add: fl_eval[of 0] round_half_even_def Let_def)

lemma fl_50: "fl 50 = 50"
  by (simp add: fl_eval[of 5] round_half_even_def Let_def)

lemma fl_100: "fl 100 = 100"
  by (simp add: fl_eval[of 6] round_half_even_def Let_def)

lemma py_round1_0: "py_round1 0 = 0"
  by (simp add: py_round1_def round_half_even_def fl_0)

text \<open>
  How far the floats are from the exact values: \<^verbatim>\<open>round(x, 1)\<close> is the double of a
  multiple of one tenth that lies within one twentieth of \<open>x\<close>, and a double is within
  half a unit in the last place of the number it rounds.
\<close>

lemma round_half_even_near: "\<bar>real_of_int (round_half_even y) - y\<bar> \<le> 1 / 2"
proof -
  have "real_of_int \<lfloor>y\<rfloor> \<le> y" and "y < real_of_int \<lfloor>y\<rfloor> + 1"
    by linarith+
  then show ?thesis
    by (auto simp: round_half_even_def Let_def abs_le_iff)
qed

lemma py_round1_tenth:
  "\<exists>k. py_round1 x = fl (real_of_int k / 10) \<and> \<bar>real_of_int k / 10 - x\<bar> \<le> 1 / 20"
proof -
  let ?k = "round_half_even (x * 10)"
  have "\<bar>real_of_int ?k - x * 10\<bar> \<le> 1 / 2"
    by (rule round_half_even_near)
  then have "\<bar>real_of_int ?k / 10 - x\<bar> \<le> 1 / 20"
    by (simp add: abs_le_iff field_simps)
  then show ?thesis
    unfolding py_round1_def by blast
qed

lemma fl_error:
  assumes "x \<noteq> 0"
  shows "\<bar>fl x - x\<bar> \<le> 2 powi (max \<lfloor>log 2 \<bar>x\<bar>\<rfloor> (- 1022) - 53)"
proof -
  define e where "e = max \<lfloor>log 2 \<bar>x\<bar>\<rfloor> (- 1022)"
  define q :: real where "q = 2 powi (e - 52)"
  have q: "0 < q" by (simp add: q_def)
  have fl: "fl x = sgn x * (real_of_int (round_half_even (\<bar>x\<bar> / q)) * q)"
    using assms by (simp add: fl_def Let_def e_def q_def)
  have "x = sgn x * (\<bar>x\<bar> / q * q)"
    using q by (simp add: sgn_mult_abs)
  then have "fl x - x = sgn x * ((real_of_int (round_half_even (\<bar>x\<bar> / q)) - \<bar>x\<bar> / q) * q)"
    unfolding fl by (simp add: algebra_simps)
  then have "\<bar>fl x - x\<bar> = \<bar>real_of_int (round_half_even (\<bar>x\<bar> / q)) - \<bar>x\<bar> / q\<bar> * q"
    using assms q by (simp add: abs_mult abs_sgn_eq)
  also have "\<dots> \<le> 1 / 2 * q"
    using q round_half_even_near[of "\<bar>x\<bar> / q"] by (intro mult_right_mono) auto
  also have "\<dots> = 2 powi (e - 53)"
  proof -
    have "(2::real) powi (e - 52) = 2 powi (e - 53 + 1)" by simp
    also have "\<dots> = 2 powi (e - 53) * 2"
      by (subst power_int_add) simp_all
    finally show ?thesis by (simp add: q_def)
  qed
  finally show ?thesis by (simp add: e_def)
qed

lemma fl_error_below:
  fixes k :: int
  assumes "\<bar>x\<bar> < 2 powi (k + 1)" and "- 1022 \<le> k"
  shows "\<bar>fl x - x\<bar> \<le> 2 powi (k - 53)"
proof (cases "x = 0")
  case True
  then show ?thesis by (simp add: fl_0)
next
  case False
  then have pos: "0 < \<bar>x\<bar>" by simp
  have p: "2 powr (real_of_int j) = (2::real) powi j" for j
    by (rule powr_real_of_int') simp_all
  have "\<bar>x\<bar> < 2 powr (real_of_int (k + 1))"
    using assms(1) by (simp only: p)
  then have "log 2 \<bar>x\<bar> < real_of_int (k + 1)"
    using pos by (simp add: log_less_iff)
  then have "real_of_int \<lfloor>log 2 \<bar>x\<bar>\<rfloor> < real_of_int (k + 1)"
    using of_int_floor_le[of "log 2 \<bar>x\<bar>"] by linarith
  then have "\<lfloor>log 2 \<bar>x\<bar>\<rfloor> < k + 1"
    by (simp only: of_int_less_iff)
  then have "max \<lfloor>log 2 \<bar>x\<bar>\<rfloor> (- 1022) - 53 \<le> k - 53"
    using assms(2) by simp
  then have "(2::real) powi (max \<lfloor>log 2 \<bar>x\<bar>\<rfloor> (- 1022) - 53) \<le> 2 powi (k - 53)"
    by (intro power_int_increasing) simp_all
  with fl_error[OF False] show ?thesis by linarith
qed

text \<open>
  So the percentage the program reports for \<open>c\<close> of \<open>n\<close> differs from the exact
  percentage by at most one twentieth and the rounding errors of three doubles.
\<close>

lemma on_time_rate_accuracy:
  assumes "0 < n" and "c \<le> n"
  shows "\<bar>py_round1 (float_mul (truediv (int c) (int n)) 100) - 100 * real c / real n\<bar>
           \<le> 1 / 20 + 1 / 35184372088832"
proof -
  define x where "x = real c / real n"
  define a where "a = fl x"
  define b where "b = fl (a * 100)"
  define t where "t = real_of_int (round_half_even (b * 10)) / 10"
  have x: "0 \<le> x" "x \<le> 1"
    using assms by (simp_all add: x_def)
  then have "\<bar>x\<bar> < 2 powi (0 + 1)" by simp
  then have "\<bar>a - x\<bar> \<le> 2 powi (0 - 53)"
    unfolding a_def by (rule fl_error_below) simp
  then have ea: "\<bar>a - x\<bar> \<le> 1 / 9007199254740992"
    by (simp add: power_int_minus_divide)
  with x have "\<bar>a * 100\<bar> < 128" by linarith
  then have "\<bar>a * 100\<bar> < 2 powi (6 + 1)" by simp
  then have "\<bar>b - a * 100\<bar> \<le> 2 powi (6 - 53)"
    unfolding b_def by (rule fl_error_below) simp
  then have eb: "\<bar>b - a * 100\<bar> \<le> 1 / 140737488355328"
    by (simp add: power_int_minus_divide)
  have "\<bar>real_of_int (round_half_even (b * 10)) - b * 10\<bar> \<le> 1 / 2"
    by (rule round_half_even_near)
  then have et: "\<bar>t - b\<bar> \<le> 1 / 20"
    unfolding t_def by linarith
  from ea eb et x have "\<bar>t\<bar> < 128" by linarith
  then have "\<bar>t\<bar> < 2 powi (6 + 1)" by simp
  then have "\<bar>fl t - t\<bar> \<le> 2 powi (6 - 53)"
    by (rule fl_error_below) simp
  then have ef: "\<bar>fl t - t\<bar> \<le> 1 / 140737488355328"
    by (simp add: power_int_minus_divide)
  have "\<bar>fl t - 100 * x\<bar> \<le> 1 / 20 + 1 / 35184372088832"
    using ea eb et ef by linarith
  then show ?thesis
    by (simp add: py_round1_def float_mul_def truediv_def a_def b_def t_def x_def)
qed

text \<open>
  The floats do not round as the real numbers do. 23 of 80 is 28.75 exactly, but the
  double of 23 / 80 times 100 is the double just below, and it is rounded to 28.7;
  one twentieth and three twentieths are both rounded to 0.1.
\<close>

lemma float_rate_23_of_80: "py_round1 (float_mul (truediv 23 80) 100) = fl (287 / 10)"
proof -
  have "truediv 23 80 = 5179139571476070 / 2 ^ 54"
    by (simp add: truediv_def fl_eval[of "- 2"] round_half_even_def Let_def)
  moreover have "fl (5179139571476070 / 2 ^ 54 * 100) = 8092405580431359 / 2 ^ 48"
    by (simp add: fl_eval[of 4] round_half_even_def Let_def)
  moreover have "py_round1 (8092405580431359 / 2 ^ 48) = fl (287 / 10)"
    by (simp add: py_round1_def round_half_even_def Let_def)
  ultimately show ?thesis
    by (simp only: float_mul_def)
qed

lemma float_avg_1_of_20: "py_round1 (truediv 1 20) = fl (1 / 10)"
  by (simp add: py_round1_def truediv_def fl_eval[of "- 5"] round_half_even_def Let_def)

lemma float_avg_3_of_20: "py_round1 (truediv 3 20) = fl (1 / 10)"
  by (simp add: py_round1_def truediv_def fl_eval[of "- 3"] round_half_even_def Let_def)

lemma floor_days_div: "floor_days us = us div US_PER_DAY"
  by (simp add: floor_days_def floor_divide_of_int_eq)

lemma upt_0_Suc: "[0..<Suc m] = 0 # map Suc [0..<m]"
  by (simp add: upt_conv_Cons map_Suc_upt del: upt_Suc)

lemma on_time_loop_count:
  "on_time_loop clk ss k n =
     n + length (filter on_time
           (zip (filter (\<lambda>s. eta s \<noteq> None) ss)
                (map (\<lambda>i. clk (k + i)) [0..<length (filter (\<lambda>s. eta s \<noteq> None) ss)])))"
proof (induction ss arbitrary: k n)
  case Nil
  then show ?case by simp
next
  case (Cons s ss)
  show ?case
  proof (cases "eta s")
    case None
    then show ?thesis using Cons.IH[of k n] by simp
  next
    case (Some e)
    then show ?thesis
      using Cons.IH[of "Suc k"]
      by (simp add: upt_0_Suc on_time_def comp_def del: upt_Suc)
  qed
qed

lemma transit_loop_map:
  "transit_loop ss acc =
     acc @ map (\<lambda>s. (the (eta s) - created_at s) div US_PER_DAY) (filter (\<lambda>s. eta s \<noteq> None) ss)"
  by (induction ss arbitrary: acc) (auto split: option.splits)

text \<open>
  Claim C1, as stated, fails: the rate is taken over all delivered shipments, not over
  those that have an eta. With two delivered shipments, one with an eta that has not
  passed and one without an eta, the program reports 50 and the claim asks for 100.
\<close>

theorem on_time_rate_counterexample:
  "on_time_rate_pct (delivery_stats (\<lambda>k. 63850000000000000) stats_table) = 50 \<and>
   rate_over_delivered_with_eta (\<lambda>k. 63850000000000000) stats_table = 100"
  by (simp add: delivery_stats_def rate_over_delivered_with_eta_def stats_table_def
      shipment_at_def evaluations_def delivered_with_eta_def on_time_def py_round1_def
      float_mul_def truediv_def fl_half fl_1 fl_50 fl_100 round_half_even_def Let_def)

text \<open>
  Claim C1, amended. The reported \<open>on_time_rate_pct\<close> is the number of delivered
  shipments whose eta is set and is not before the clock reading taken for them,
  divided by the number of all delivered shipments, as a percentage rounded to one
  decimal, all in Python's float arithmetic: the quotient is rounded to a double, so
  is its product with 100, and \<^verbatim>\<open>round\<close> rounds that double. It is 0 when no shipment
  is delivered.
\<close>

theorem on_time_rate_over_all_delivered:
  "on_time_rate_pct (delivery_stats clk tbl) = rate_over_delivered clk tbl"
  by (simp add: delivery_stats_def rate_over_delivered_def Let_def on_time_loop_count
      evaluations_def delivered_with_eta_def py_round1_0 del: upt_Suc)

text \<open>
  Claim C9, as stated, fails: the whole days of a negative duration are rounded down,
  not towards zero. For a delivered shipment whose eta lies 23 hours before its
  creation the program reports -1 and the claim asks for 0.
\<close>

theorem avg_transit_counterexample:
  "avg_transit_days (delivery_stats (\<lambda>k. 63900000000000000) early_table) = - 1 \<and>
   average_days truncate_days early_table = 0"
  by (simp add: delivery_stats_def average_days_def early_table_def truncate_days_def
      shipment_at_def delivered_with_eta_def py_round1_def truediv_def fl_0 fl_minus_1
      US_PER_DAY_def round_half_even_def Let_def)

text \<open>
  Claim C9, amended. The reported \<open>avg_transit_days\<close> is the average, over the
  delivered shipments that have an eta, of the eta minus the time of creation in whole
  days rounded down, rounded to one decimal, in Python's float arithmetic: the sum of
  the days divided by their number is rounded to a double, and \<^verbatim>\<open>round\<close> rounds that
  double. It is 0 when no delivered shipment has an eta.
\<close>

theorem avg_transit_floor_days:
  "avg_transit_days (delivery_stats clk tbl) = average_days floor_days tbl"
proof (cases "filter (\<lambda>s. status s = ''delivered'') tbl = []")
  case True
  then show ?thesis
    by (simp add: delivery_stats_def average_days_def Let_def delivered_with_eta_def
        py_round1_0)
next
  case False
  then show ?thesis
    by (simp add: delivery_stats_def average_days_def Let_def transit_loop_map
        delivered_with_eta_def py_round1_0 floor_days_div del: filter_filter)
qed

text \<open>
  Where every eta is at or after the creation, rounding down and rounding towards zero
  agree.
\<close>

lemma truncate_days_nonneg: "0 \<le> us \<Longrightarrow> truncate_days us = floor_days us"
  by (cases "us = 0") (simp_all add: truncate_days_def floor_days_div)

text \<open>The statistics of the empty table.\<close>

lemma delivery_stats_empty:
  "delivery_stats clk [] =
     \<lparr>stats_total_shipments = 0, delivered = 0, in_exception = 0, on_time_rate_pct = 0,
      avg_transit_days = 0, stats_by_carrier = []\<rparr>"
  by (simp add: delivery_stats_def py_round1_0)

section \<open>Properties of the route estimate\<close>

text \<open>
  The argument of the square root lies between 0 and 1 for all coordinates, so over the
  real numbers neither \<^verbatim>\<open>math.sqrt\<close> nor \<^verbatim>\<open>math.asin\<close> fails.
\<close>

lemma unit_dot_le_one:
  fixes s1 c1 s2 c2 k :: real
  assumes "s1\<^sup>2 + c1\<^sup>2 = 1" and "s2\<^sup>2 + c2\<^sup>2 = 1" and "k\<^sup>2 \<le> 1"
  shows "(s1 * s2 + c1 * c2 * k)\<^sup>2 \<le> 1"
proof -
  have "(s1 * s2 + c1 * c2 * k)\<^sup>2 + (s1 * c2 * k - c1 * s2)\<^sup>2
          = (s1\<^sup>2 + c1\<^sup>2) * (s2\<^sup>2 + c2\<^sup>2 * k\<^sup>2)"
    by (simp add: power2_eq_square algebra_simps)
  also have "\<dots> = s2\<^sup>2 + c2\<^sup>2 * k\<^sup>2"
    using assms(1) by simp
  also have "\<dots> \<le> s2\<^sup>2 + c2\<^sup>2 * 1"
    using assms(3) by (intro add_left_mono mult_left_mono) auto
  finally have "(s1 * s2 + c1 * c2 * k)\<^sup>2 + (s1 * c2 * k - c1 * s2)\<^sup>2 \<le> 1"
    using assms(2) by simp
  moreover have "0 \<le> (s1 * c2 * k - c1 * s2)\<^sup>2" by simp
  ultimately show ?thesis by linarith
qed

lemma sin_half_squared: "(sin (x / 2))\<^sup>2 = (1 - cos x) / 2" for x :: real
  using cos_double_sin[of "x / 2"] by simp

lemma haversine_term:
  fixes p q d :: real
  shows "(sin ((q - p) / 2))\<^sup>2 + cos p * cos q * (sin (d / 2))\<^sup>2
           = (1 - (sin p * sin q + cos p * cos q * cos d)) / 2"
proof -
  have lat: "(sin ((q - p) / 2))\<^sup>2 = (1 - (cos q * cos p + sin q * sin p)) / 2"
    by (simp only: sin_half_squared cos_diff)
  have lon: "(sin (d / 2))\<^sup>2 = (1 - cos d) / 2"
    by (rule sin_half_squared)
  show ?thesis
    unfolding lat lon by (simp add: field_simps)
qed

lemma haversine_term_bounds:
  fixes p q d :: real
  defines "a \<equiv> (sin ((q - p) / 2))\<^sup>2 + cos p * cos q * (sin (d / 2))\<^sup>2"
  shows "0 \<le> a" and "a \<le> 1"
proof -
  let ?X = "sin p * sin q + cos p * cos q * cos d"
  have "(cos d)\<^sup>2 \<le> 1"
    using abs_cos_le_one[of d] by (simp add: abs_square_le_1)
  then have "?X\<^sup>2 \<le> 1"
    by (intro unit_dot_le_one) simp_all
  then have "\<bar>?X\<bar> \<le> 1"
    by (simp add: abs_square_le_1)
  then have "- 1 \<le> ?X" and "?X \<le> 1" by linarith+
  moreover have "a = (1 - ?X) / 2"
    unfolding a_def by (rule haversine_term)
  ultimately show "0 \<le> a" and "a \<le> 1" by simp_all
qed

lemma radians_diff: "radians (x - y) = radians x - radians y"
  by (simp add: radians_def algebra_simps diff_divide_distrib)

lemma haversine_distance_total:
  "haversine_distance p q = Inr (great_circle_km p q)"
proof -
  obtain lat1 lon1 lat2 lon2 where pq: "p = (lat1, lon1)" "q = (lat2, lon2)"
    by (cases p, cases q) auto
  let ?a = "(sin ((radians lat2 - radians lat1) / 2))\<^sup>2
              + cos (radians lat1) * cos (radians lat2)
                * (sin ((radians lon2 - radians lon1) / 2))\<^sup>2"
  have "0 \<le> ?a" and "?a \<le> 1"
    by (rule haversine_term_bounds)+
  then have "\<not> ?a < 0" and "\<not> 1 < sqrt ?a"
    by (simp_all add: not_less)
  then show ?thesis
    by (simp add: pq haversine_distance_def great_circle_km_def radians_diff Let_def)
qed

lemma keys_CITY_COORDS: "map fst CITY_COORDS = known_codes"
  by (simp add: CITY_COORDS_def known_codes_def)

lemma map_of_NYC: "map_of CITY_COORDS ''NYC'' = Some (40.7128, - 74.0060)"
  by (simp add: CITY_COORDS_def)

lemma map_of_LAX: "map_of CITY_COORDS ''LAX'' = Some (34.0522, - 118.2437)"
  by (simp add: CITY_COORDS_def)

text \<open>
  Claim C6. When the origin or the destination is not one of the 20 city codes of the
  table, \<open>get_route\<close> returns (it does not raise) a dictionary with the single key
  error, whose text lists the known city codes; the dictionary has no distance,
  duration or stops.
\<close>

theorem route_unknown_city:
  assumes "org \<notin> fst ` set CITY_COORDS \<or> dst \<notin> fst ` set CITY_COORDS"
  shows "get_route org dst =
           Inr [(''error'', Str (''Unknown city. Available cities: '' @ py_repr_list known_codes))] \<and>
         route_field (get_route org dst) ''distance_km'' = None \<and>
         route_field (get_route org dst) ''duration_h'' = None \<and>
         route_field (get_route org dst) ''stops'' = None \<and>
         set known_codes = fst ` set CITY_COORDS \<and> length known_codes = 20 \<and>
         distinct known_codes"
proof -
  have "get_route org dst =
          Inr [(''error'', Str (''Unknown city. Available cities: '' @ py_repr_list known_codes))]"
    using assms by (auto simp: get_route_def keys_CITY_COORDS)
  moreover have "set (map fst CITY_COORDS) = fst ` set CITY_COORDS"
    by simp
  then have "set known_codes = fst ` set CITY_COORDS"
    by (simp only: keys_CITY_COORDS)
  moreover have "length known_codes = 20 \<and> distinct known_codes"
    by (simp add: known_codes_def)
  ultimately show ?thesis
    by (simp add: route_field_def)
qed

theorem route_unknown_city_witness:
  "''XXX'' \<notin> fst ` set CITY_COORDS \<and>
   get_route ''XXX'' ''NYC'' =
     Inr [(''error'', Str (''Unknown city. Available cities: '' @ py_repr_list known_codes))] \<and>
   route_field (get_route ''XXX'' ''NYC'') ''stops'' = None"
proof -
  have x: "''XXX'' \<notin> fst ` set CITY_COORDS"
    by (simp add: CITY_COORDS_def)
  then have "''XXX'' \<notin> fst ` set CITY_COORDS \<or> ''NYC'' \<notin> fst ` set CITY_COORDS" by simp
  from route_unknown_city[OF this] x show ?thesis by blast
qed

text \<open>
  Claim C7. When both city codes are in the table, \<open>get_route\<close> returns the origin,
  the destination, the great-circle distance of the two coordinates rounded to one
  decimal, the unrounded distance divided by 80 rounded to one decimal, and the stops
  origin and destination, in this order. Numbers are real numbers here.
\<close>

theorem route_known_cities:
  assumes "org \<in> fst ` set CITY_COORDS" and "dst \<in> fst ` set CITY_COORDS"
  shows "get_route org dst =
           (let km = great_circle_km (the (map_of CITY_COORDS org)) (the (map_of CITY_COORDS dst))
            in Inr [(''origin'', Str org),
                    (''destination'', Str dst),
                    (''distance_km'', Num (round1 km)),
                    (''duration_h'', Num (round1 (km / 80))),
                    (''stops'', StrList [org, dst])])"
  using assms by (simp add: get_route_def haversine_distance_total Let_def)

theorem route_known_cities_witness:
  "''NYC'' \<in> fst ` set CITY_COORDS \<and> ''LAX'' \<in> fst ` set CITY_COORDS \<and>
   get_route ''NYC'' ''LAX'' =
     Inr [(''origin'', Str ''NYC''),
          (''destination'', Str ''LAX''),
          (''distance_km'', Num (round1 (great_circle_km (40.7128, - 74.0060) (34.0522, - 118.2437)))),
          (''duration_h'', Num (round1 (great_circle_km (40.7128, - 74.0060) (34.0522, - 118.2437) / 80))),
          (''stops'', StrList [''NYC'', ''LAX''])]"
proof -
  have o: "''NYC'' \<in> fst ` set CITY_COORDS" and d: "''LAX'' \<in> fst ` set CITY_COORDS"
    by (simp_all add: CITY_COORDS_def)
  show ?thesis
    using o d route_known_cities[OF o d] by (simp add: map_of_NYC map_of_LAX Let_def)
qed

end
